theory Spec2Isabelle
  imports Main "HOL-Library.Sublist"
begin

section \<open>Strings and JavaScript values\<close>

text \<open>
  The adapter (\<^verbatim>\<open>src/index.js\<close>; \<^verbatim>\<open>src/unnamed/part_000\<close> holds the same text for
  \<^verbatim>\<open>getEmojiChoices\<close>, \<^verbatim>\<open>formatScope\<close>, \<^verbatim>\<open>formatHead\<close>, \<^verbatim>\<open>formatBody\<close>,
  \<^verbatim>\<open>formatLineItem\<close>, \<^verbatim>\<open>filter\<close> and the callbacks of \<^verbatim>\<open>createQuestions\<close>) works on
  JavaScript strings. A string is modelled as a \<^typ>\<open>string\<close>; a character outside
  ASCII is carried as its UTF-8 bytes. The functions below only concatenate strings,
  test them for emptiness and compare ASCII characters, and none of this depends on
  the encoding. The one place where the source counts (\<^verbatim>\<open>.length\<close>) goes through
  \<open>jsLength\<close>, which counts UTF-16 code units as JavaScript does.

  A value that may be absent (\<^verbatim>\<open>undefined\<close>: a skipped question, a missing key) is an
  \<^typ>\<open>string option\<close>; \<open>truthy\<close> is JavaScript's conversion to a boolean, under
  which \<^verbatim>\<open>undefined\<close> and the empty string are false and every other string is true.
\<close>

definition truthy :: "string option \<Rightarrow> bool" where
  "truthy v = (case v of None \<Rightarrow> False | Some s \<Rightarrow> s \<noteq> [])"

definition newline :: char where
  "newline = CHR 0x0A"

definition jsLength :: "string \<Rightarrow> nat" where
  \<comment> \<open>UTF-16 code units of a UTF-8 text: one for each byte that starts a code point,
      and one more for each code point of four bytes (a surrogate pair).\<close>
  "jsLength s =
     length (filter (\<lambda>c. \<not> (128 \<le> (of_char c :: nat) \<and> (of_char c :: nat) < 192)) s)
     + length (filter (\<lambda>c. 240 \<le> (of_char c :: nat)) s)"

fun join :: "string \<Rightarrow> string list \<Rightarrow> string" where
  \<comment> \<open>\<^verbatim>\<open>Array.prototype.join\<close> on an array of strings.\<close>
  "join sep [] = []"
| "join sep [x] = x"
| "join sep (x # y # ys) = x @ sep @ join sep (y # ys)"

section \<open>Data model\<close>

text \<open>
  An entry of the change-type catalogue (\<^verbatim>\<open>./lib/types\<close>, or \<^verbatim>\<open>types\<close> of the
  configuration file), a workflow entry, the value bound to a chosen type, and an
  entry of the choice list built from the catalogue.
\<close>

record changeType =
  ct_emoji :: string
  ct_code :: string
  ct_description :: string
  ct_name :: string

record workflowTag =
  wf_name :: string
  wf_value :: string

record typeValue =
  tv_emoji :: string
  tv_name :: string

record choiceEntry =
  ce_name :: string
  ce_value :: typeValue
  ce_code :: string

text \<open>
  \<^verbatim>\<open>config.questions\<close> is an optional object with an optional \<^verbatim>\<open>type\<close> message.
\<close>

record questionsConfig =
  qc_type :: "string option"

text \<open>
  The resolved configuration: the keys of \<^verbatim>\<open>defaultConfig\<close>, and the two keys that
  only a configuration file can bring (\<^verbatim>\<open>scopes\<close>, \<^verbatim>\<open>questions\<close>).
\<close>

record config =
  types :: "changeType list"
  workflows :: "workflowTag list"
  projectDir :: string
  symbol :: bool
  skipQuestions :: "string list"
  subjectMaxLength :: nat
  conventional :: bool
  scopes :: "string list option"
  questions :: "questionsConfig option"

text \<open>
  The answers collected by the prompt engine. \<^verbatim>\<open>scope\<close> is absent when its question
  is skipped; \<^verbatim>\<open>time\<close>, \<^verbatim>\<open>comment\<close> and \<^verbatim>\<open>workflow\<close> are tested for truthiness by
  the formatter and are optional here. The fields are prefixed with \<open>a_\<close>.
\<close>

record answers =
  a_type :: typeValue
  a_scope :: "string option"
  a_issues :: string
  a_time :: "string option"
  a_comment :: "string option"
  a_workflow :: "string option"
  a_subject :: string
  a_body :: string

section \<open>Answer formatter\<close>

definition formatScope :: "string option \<Rightarrow> string" where
  "formatScope scope = (if truthy scope then ''('' @ the scope @ '')'' else [])"

definition formatHead :: "answers \<Rightarrow> config \<Rightarrow> string" where
  "formatHead a cfg =
     (let prelude =
        (if conventional cfg
         then tv_name (a_type a) @ formatScope (a_scope a) @ '': '' @ tv_emoji (a_type a)
         else tv_emoji (a_type a) @ '' '' @ formatScope (a_scope a) @ '' '')
      in prelude @ '' '' @ a_subject a)"

definition filter_truthy :: "string option list \<Rightarrow> string list" where
  \<comment> \<open>\<^verbatim>\<open>filter\<close> of the source: the items that are truthy.\<close>
  "filter_truthy array = map the (filter truthy array)"

definition formatLineItem :: "string \<Rightarrow> string \<Rightarrow> string" where
  "formatLineItem issues line = issues @ '' '' @ line"

definition formatBody :: "answers \<Rightarrow> config \<Rightarrow> string" where
  "formatBody a cfg =
     (let smartText = join '' ''
        (filter_truthy
          [if truthy (a_workflow a) \<and> a_workflow a \<noteq> Some ''[NONE]''
             then Some (''#'' @ the (a_workflow a)) else None,
           if truthy (a_time a) then Some (''#time '' @ the (a_time a)) else None,
           if truthy (a_comment a) then Some (''#comment '' @ the (a_comment a)) else None])
      in a_body a @ '' '' @ [newline] @ '' '' @ formatLineItem (a_issues a) smartText)"

section \<open>Regular expressions\<close>

text \<open>
  The fragment of JavaScript's regular expressions that \<^verbatim>\<open>jiraMatcher\<close> is written
  in: a character class, concatenation, the greedy quantifiers \<^verbatim>\<open>?\<close> and \<^verbatim>\<open>+\<close>, a
  negative lookahead \<^verbatim>\<open>(?!r)\<close> and the end of input \<^verbatim>\<open>$\<close> (the expression has no
  \<^verbatim>\<open>m\<close> flag, so \<^verbatim>\<open>$\<close> is the end of the whole input). Groups only capture, and the
  expression has no back-reference, so they are left out.
\<close>

datatype regex =
    Eps
  | Chars "char list"
  | Cat regex regex
  | Opt regex
  | Plus regex
  | NotAhead regex
  | AtEnd

text \<open>
  \<open>matchR r s\<close> lists what is left of \<open>s\<close> after each way \<open>r\<close> can match at its
  start, in the order in which a backtracking matcher tries them (a greedy quantifier
  tries the longer match first). The head of the list is the match JavaScript takes.
\<close>

fun matchR :: "regex \<Rightarrow> string \<Rightarrow> string list" where
  "matchR Eps s = [s]"
| "matchR (Chars cs) s = (case s of [] \<Rightarrow> [] | c # t \<Rightarrow> if c \<in> set cs then [t] else [])"
| "matchR (Cat a b) s = concat (map (matchR b) (matchR a s))"
| "matchR (Opt a) s = matchR a s @ [s]"
| "matchR (Plus a) s =
     concat (map (\<lambda>t. matchR (Plus a) t @ [t])
       (filter (\<lambda>t. length t < length s) (matchR a s)))"
| "matchR (NotAhead a) s = (if matchR a s = [] then [s] else [])"
| "matchR AtEnd s = (if s = [] then [s] else [])"

text \<open>\<^verbatim>\<open>r{lo,hi}\<close>: \<open>lo\<close> copies of \<open>r\<close>, then up to \<open>hi - lo\<close> more, greedily.\<close>

fun upTo :: "nat \<Rightarrow> regex \<Rightarrow> regex" where
  "upTo 0 r = Eps"
| "upTo (Suc n) r = Opt (Cat r (upTo n r))"

definition between :: "nat \<Rightarrow> nat \<Rightarrow> regex \<Rightarrow> regex" where
  "between lo hi r = foldr Cat (replicate lo r) (upTo (hi - lo) r)"

text \<open>
  \<^verbatim>\<open>String.prototype.match\<close> with a \<^verbatim>\<open>g\<close> expression: the matches from left to right,
  each search starting where the last match ended (one character further after an
  empty match), and \<^verbatim>\<open>null\<close> when there is none. \<open>matchAllFrom r i s\<close> scans the rest
  \<open>s\<close> of the input that starts at index \<open>i\<close>, and gives each match with the index
  where it starts.
\<close>

fun matchAllFrom :: "regex \<Rightarrow> nat \<Rightarrow> string \<Rightarrow> (nat \<times> string) list" where
  "matchAllFrom r i s =
     (case matchR r s of
        [] \<Rightarrow> (case s of [] \<Rightarrow> [] | c # s' \<Rightarrow> matchAllFrom r (Suc i) s')
      | t # ts \<Rightarrow>
          (if length t < length s
           then (i, take (length s - length t) s)
                  # matchAllFrom r (i + (length s - length t)) t
           else (i, []) # (case s of [] \<Rightarrow> [] | c # s' \<Rightarrow> matchAllFrom r (Suc i) s')))"

definition match_g :: "regex \<Rightarrow> string \<Rightarrow> string list option" where
  "match_g r s = (case map snd (matchAllFrom r 0 s) of [] \<Rightarrow> None | m # ms \<Rightarrow> Some (m # ms))"

section \<open>Version-control context resolver\<close>

definition range_A_Z :: string where
  "range_A_Z = ''ABCDEFGHIJKLMNOPQRSTUVWXYZ''"

definition range_a_z :: string where
  "range_a_z = ''abcdefghijklmnopqrstuvwxyz''"

definition range_0_9 :: string where
  "range_0_9 = ''0123456789''"

text \<open>
  \<^verbatim>\<open>/((?!([A-Z0-9a-z]{1,10})-?$)[A-Z]{1}[A-Z0-9]+-\d+)/g\<close>
\<close>

definition jiraMatcher :: regex where
  "jiraMatcher =
     Cat (NotAhead
            (Cat (between 1 10 (Chars (range_A_Z @ range_0_9 @ range_a_z)))
              (Cat (Opt (Chars ''-'')) AtEnd)))
       (Cat (between 1 1 (Chars range_A_Z))
         (Cat (Plus (Chars (range_A_Z @ range_0_9)))
           (Cat (Chars ''-'') (Plus (Chars range_0_9)))))"

text \<open>
  A promise settles with a value or is rejected with a reason: \<open>rejection + 'a\<close>.
  \<^verbatim>\<open>getGitBranch\<close> awaits the child process; its argument is how that promise
  settled, with the standard output of \<^verbatim>\<open>git rev-parse --abbrev-ref HEAD\<close> when it
  was fulfilled. The source has no \<^verbatim>\<open>try\<close> and no \<^verbatim>\<open>catch\<close>: a rejection awaited
  is a rejection of the function's own promise.
\<close>

datatype rejection = Rejected string

definition getGitBranch :: "rejection + string \<Rightarrow> rejection + string" where
  "getGitBranch branch =
     (case branch of
        Inl e \<Rightarrow> Inl e
      | Inr stdout \<Rightarrow>
          (case match_g jiraMatcher stdout of
             Some jiraTickets \<Rightarrow> Inr (jiraTickets ! (length jiraTickets - 1))
           | None \<Rightarrow> Inr ''no jira ticket''))"

section \<open>Catalog builder\<close>

text \<open>
  \<^verbatim>\<open>pad\<close> is the function of the npm module of that name; it is a parameter here.
\<close>

definition getEmojiChoices :: "(string \<Rightarrow> nat \<Rightarrow> string) \<Rightarrow> config \<Rightarrow> choiceEntry list" where
  "getEmojiChoices pad cfg =
     (let maxNameLength =
        foldl (\<lambda>maxLength type.
                 if jsLength (ct_name type) > maxLength then jsLength (ct_name type)
                 else maxLength)
          0 (types cfg)
      in map (\<lambda>choice.
            \<lparr>ce_name = pad (ct_name choice) maxNameLength @ ''  '' @ ct_emoji choice
                 @ ''  '' @ ct_description choice,
             ce_value =
               \<lparr>tv_emoji = (if symbol cfg then ct_emoji choice @ '' '' else ct_code choice),
                tv_name = ct_name choice\<rparr>,
             ce_code = ct_code choice\<rparr>)
          (types cfg))"

section \<open>Configuration loading\<close>

text \<open>
  \<^verbatim>\<open>defaultConfig\<close>; its \<^verbatim>\<open>types\<close> are the table of \<^verbatim>\<open>./lib/types\<close>, a parameter here.
\<close>

definition defaultConfig :: "changeType list \<Rightarrow> config" where
  "defaultConfig libTypes =
     \<lparr>types = libTypes,
      workflows = [],
      projectDir = ''~/workspace/hanger'',
      symbol = False,
      skipQuestions = [[]],
      subjectMaxLength = 75,
      conventional = False,
      scopes = None,
      questions = None\<rparr>"

text \<open>
  The \<^verbatim>\<open>config\<close> object of a \<^verbatim>\<open>.czrc\<close> file: each key may be missing.
\<close>

record czrcConfig =
  rc_types :: "changeType list option"
  rc_workflows :: "workflowTag list option"
  rc_projectDir :: "string option"
  rc_symbol :: "bool option"
  rc_skipQuestions :: "string list option"
  rc_subjectMaxLength :: "nat option"
  rc_conventional :: "bool option"
  rc_scopes :: "string list option"
  rc_questions :: "questionsConfig option"

definition spread :: "config \<Rightarrow> czrcConfig option \<Rightarrow> config" where
  \<comment> \<open>\<^verbatim>\<open>{ ...defaultConfig, ...config }\<close>: a key of the file replaces the default;
      spreading \<^verbatim>\<open>null\<close> or \<^verbatim>\<open>undefined\<close> adds nothing.\<close>
  "spread d file =
     (case file of
        None \<Rightarrow> d
      | Some rc \<Rightarrow>
          \<lparr>types = (case rc_types rc of Some v \<Rightarrow> v | None \<Rightarrow> types d),
           workflows = (case rc_workflows rc of Some v \<Rightarrow> v | None \<Rightarrow> workflows d),
           projectDir = (case rc_projectDir rc of Some v \<Rightarrow> v | None \<Rightarrow> projectDir d),
           symbol = (case rc_symbol rc of Some v \<Rightarrow> v | None \<Rightarrow> symbol d),
           skipQuestions =
             (case rc_skipQuestions rc of Some v \<Rightarrow> v | None \<Rightarrow> skipQuestions d),
           subjectMaxLength =
             (case rc_subjectMaxLength rc of Some v \<Rightarrow> v | None \<Rightarrow> subjectMaxLength d),
           conventional =
             (case rc_conventional rc of Some v \<Rightarrow> v | None \<Rightarrow> conventional d),
           scopes = (case rc_scopes rc of Some v \<Rightarrow> Some v | None \<Rightarrow> scopes d),
           questions = (case rc_questions rc of Some v \<Rightarrow> Some v | None \<Rightarrow> questions d)\<rparr>)"

text \<open>
  \<^verbatim>\<open>loadConfig\<close> first awaits \<^verbatim>\<open>getGitBranch()\<close> and assigns the result to the module
  variable \<^verbatim>\<open>jiraTicket\<close>, then awaits \<^verbatim>\<open>readFromLocalCzrc()\<close>. The arguments are how
  the child process and the reading of the file settled; the result is the value of
  \<^verbatim>\<open>jiraTicket\<close> with the merged configuration.
\<close>

definition loadConfig ::
  "changeType list \<Rightarrow> rejection + string \<Rightarrow> rejection + czrcConfig option
     \<Rightarrow> rejection + string \<times> config" where
  "loadConfig libTypes branch czrc =
     (case getGitBranch branch of
        Inl e \<Rightarrow> Inl e
      | Inr jiraTicket \<Rightarrow>
          (case czrc of
             Inl e \<Rightarrow> Inl e
           | Inr file \<Rightarrow> Inr (jiraTicket, spread (defaultConfig libTypes) file)))"

section \<open>Question pipeline builder\<close>

text \<open>
  What a \<^verbatim>\<open>validate\<close> callback returns (\<^verbatim>\<open>true\<close>, or the message shown to the user)
  and what a \<^verbatim>\<open>source\<close> callback resolves to.
\<close>

datatype validation = Valid | Invalid string

datatype selection = TypeChoices "choiceEntry list" | WorkflowChoices "workflowTag list"

text \<open>
  A question object; a key that the object literal does not have is \<open>None\<close>.
  The query handed to \<^verbatim>\<open>source\<close> is \<^verbatim>\<open>undefined\<close> or the text typed so far.
\<close>

record question =
  q_type :: string
  q_name :: string
  q_message :: string
  q_default :: "string option"
  q_when :: "bool option"
  q_source :: "(string option \<Rightarrow> rejection + selection) option"
  q_validate :: "(string \<Rightarrow> validation) option"
  q_maxLength :: "nat option"
  q_filter :: "(string \<Rightarrow> answers \<Rightarrow> string) option"

definition plainQuestion :: "string \<Rightarrow> string \<Rightarrow> string \<Rightarrow> question" where
  \<comment> \<open>An object literal with the keys \<^verbatim>\<open>type\<close>, \<^verbatim>\<open>name\<close> and \<^verbatim>\<open>message\<close> only.\<close>
  "plainQuestion ty nm msg =
     \<lparr>q_type = ty, q_name = nm, q_message = msg, q_default = None, q_when = None,
      q_source = None, q_validate = None, q_maxLength = None, q_filter = None\<rparr>"

text \<open>
  \<open>fuseE qs\<close> and \<open>fuseW qs\<close> stand for \<^verbatim>\<open>new fuse(qs, fuzzyOptions).search\<close> over the
  type choices and over the workflows; \<open>jiraTicket\<close> is the module variable.
\<close>

definition createQuestions ::
  "(string \<Rightarrow> nat \<Rightarrow> string) \<Rightarrow> (choiceEntry list \<Rightarrow> string \<Rightarrow> choiceEntry list)
     \<Rightarrow> (workflowTag list \<Rightarrow> string \<Rightarrow> workflowTag list)
     \<Rightarrow> string option \<Rightarrow> config \<Rightarrow> question list" where
  "createQuestions pad fuseE fuseW jiraTicket cfg =
     (let choices = getEmojiChoices pad cfg;
          workflowList = \<lparr>wf_name = ''[NONE]'', wf_value = ''[NONE]''\<rparr> # workflows cfg;
          fuzzyEmojis = fuseE choices;
          fuzzyWorkflows = fuseW workflowList
      in
       [(plainQuestion ''autocomplete'' ''type''
           (if questions cfg \<noteq> None \<and> truthy (qc_type (the (questions cfg)))
            then the (qc_type (the (questions cfg)))
            else ''Select the type of change you'' @ [CHR 0x27] @ ''re committing:''))
          \<lparr>q_source := Some (\<lambda>query.
             Inr (TypeChoices (if truthy query then fuzzyEmojis (the query) else choices)))\<rparr>,
        (plainQuestion (if scopes cfg \<noteq> None then ''list'' else ''input'') ''scope''
           ''Specify a scope:'')
          \<lparr>q_when := Some (''scope'' \<notin> set (skipQuestions cfg))\<rparr>,
        (plainQuestion ''input'' ''issues'' ''Jira Issue ID(s):'')
          \<lparr>q_default := jiraTicket,
           q_validate := Some (\<lambda>input.
             if \<not> truthy (Some input) then Invalid ''Must specify issue IDs'' else Valid)\<rparr>,
        plainQuestion ''input'' ''time'' ''Time spent (i.e. 3h 15m):'',
        plainQuestion ''input'' ''comment'' ''Jira comment:'',
        (plainQuestion ''autocomplete'' ''workflow'' ''Workflow command:'')
          \<lparr>q_source := Some (\<lambda>query.
             Inr (WorkflowChoices
               (if truthy query then fuzzyWorkflows (the query) else workflowList)))\<rparr>,
        (plainQuestion ''maxlength-input'' ''subject'' ''Write a short description:'')
          \<lparr>q_maxLength := Some (subjectMaxLength cfg),
           q_filter := Some (\<lambda>subject answers.
             formatHead (answers\<lparr>a_subject := subject\<rparr>) cfg)\<rparr>,
        (plainQuestion ''input'' ''body'' ''Provide a longer description:'')
          \<lparr>q_when := Some (''body'' \<notin> set (skipQuestions cfg)),
           q_filter := Some (\<lambda>body answers.
             formatBody (answers\<lparr>a_body := body\<rparr>) cfg)\<rparr>])"

text \<open>Calling a callback of a question, when the question has it.\<close>

definition callSource :: "question \<Rightarrow> string option \<Rightarrow> (rejection + selection) option" where
  "callSource q query = (case q_source q of None \<Rightarrow> None | Some f \<Rightarrow> Some (f query))"

definition callValidate :: "question \<Rightarrow> string \<Rightarrow> validation option" where
  "callValidate q input = (case q_validate q of None \<Rightarrow> None | Some f \<Rightarrow> Some (f input))"

section \<open>The prompter\<close>

text \<open>
  \<^verbatim>\<open>loadConfig().then(createQuestions).then(cz.prompt).then(format).then(commit)\<close>:
  each step runs when the one before is fulfilled, and a rejection passes through the
  rest of the chain, which has no rejection handler. \<open>prompt\<close> is \<^verbatim>\<open>cz.prompt\<close>;
  \<open>finish\<close> stands for the last two steps, \<^verbatim>\<open>format\<close> and the host's \<^verbatim>\<open>commit\<close>.
\<close>

definition prompter ::
  "(string \<Rightarrow> nat \<Rightarrow> string) \<Rightarrow> (choiceEntry list \<Rightarrow> string \<Rightarrow> choiceEntry list)
     \<Rightarrow> (workflowTag list \<Rightarrow> string \<Rightarrow> workflowTag list)
     \<Rightarrow> changeType list \<Rightarrow> rejection + string \<Rightarrow> rejection + czrcConfig option
     \<Rightarrow> (question list \<Rightarrow> rejection + answers) \<Rightarrow> (answers \<Rightarrow> rejection + 'r)
     \<Rightarrow> rejection + 'r" where
  "prompter pad fuseE fuseW libTypes branch czrc prompt finish =
     (case loadConfig libTypes branch czrc of
        Inl e \<Rightarrow> Inl e
      | Inr (jiraTicket, cfg) \<Rightarrow>
          (case prompt (createQuestions pad fuseE fuseW (Some jiraTicket) cfg) of
             Inl e \<Rightarrow> Inl e
           | Inr answers \<Rightarrow> finish answers))"

section \<open>Specification-side notions\<close>

text \<open>
  The words of the specification for the smart-commit suffix: a token is written for
  a field that is present, where an answer that is missing or left empty is not
  present, and the workflow token is left out for the sentinel \<^verbatim>\<open>[NONE]\<close>; the tokens
  are joined by single spaces.
\<close>

definition present :: "string option \<Rightarrow> bool" where
  "present v = (v \<noteq> None \<and> v \<noteq> Some [])"

definition smartTokens :: "answers \<Rightarrow> string list" where
  "smartTokens a =
     (if present (a_workflow a) \<and> a_workflow a \<noteq> Some ''[NONE]''
      then [''#'' @ the (a_workflow a)] else [])
     @ (if present (a_time a) then [''#time '' @ the (a_time a)] else [])
     @ (if present (a_comment a) then [''#comment '' @ the (a_comment a)] else [])"

definition smartSuffix :: "answers \<Rightarrow> string" where
  "smartSuffix a = join '' '' (smartTokens a)"

section \<open>Example inputs\<close>

text \<open>
  The glyph U+1F31F (the \<^verbatim>\<open>feature\<close> type of the README) in UTF-8, and the answers
  and configurations that the examples of the specification name.
\<close>

definition star2 :: string where
  "star2 = [CHR 0xF0, CHR 0x9F, CHR 0x8C, CHR 0x9F]"

definition featureAnswers :: answers where
  "featureAnswers =
     \<lparr>a_type = \<lparr>tv_emoji = star2, tv_name = ''feature''\<rparr>,
      a_scope = Some ''api'',
      a_issues = ''ABC-1'',
      a_time = Some ''2h'',
      a_comment = Some ''done'',
      a_workflow = Some ''[NONE]'',
      a_subject = ''add x'',
      a_body = ''fix bug''\<rparr>"

definition otherAnswers :: answers where
  "otherAnswers =
     \<lparr>a_type = \<lparr>tv_emoji = star2, tv_name = ''feature''\<rparr>,
      a_scope = Some ''api'',
      a_issues = ''DEF-22'',
      a_time = None,
      a_comment = None,
      a_workflow = Some ''testing'',
      a_subject = ''add x'',
      a_body = ''another body''\<rparr>"

definition bareAnswers :: answers where
  "bareAnswers =
     \<lparr>a_type = \<lparr>tv_emoji = '':star2:'', tv_name = ''feature''\<rparr>,
      a_scope = None,
      a_issues = ''ABC-1'',
      a_time = None,
      a_comment = None,
      a_workflow = Some ''[NONE]'',
      a_subject = ''add x'',
      a_body = ''fix bug''\<rparr>"

definition plainConfig :: config where
  "plainConfig = defaultConfig []"

definition conventionalConfig :: config where
  "conventionalConfig = (defaultConfig [])\<lparr>conventional := True\<rparr>"

text \<open>
  Stand-ins for the collaborators of the code in the examples: the \<^verbatim>\<open>pad\<close> module
  (padding on the right with spaces), a search of \<^verbatim>\<open>fuse.js\<close>, a prompt engine that
  answers, and the steps after the prompt.
\<close>

definition padRight :: "string \<Rightarrow> nat \<Rightarrow> string" where
  "padRight s n = s @ replicate (n - jsLength s) CHR '' ''"

definition searchNothing :: "'a list \<Rightarrow> string \<Rightarrow> 'a list" where
  "searchNothing xs query = []"

definition promptAnswers :: "question list \<Rightarrow> rejection + answers" where
  "promptAnswers qs = Inr featureAnswers"

definition finishWith :: "answers \<Rightarrow> rejection + string" where
  "finishWith a = Inr (a_subject a)"

text \<open>
  The rejection of the child process outside a repository, the \<^verbatim>\<open>feature\<close> type of
  the README, a configuration that asks for glyphs, and a \<^verbatim>\<open>.czrc\<close> whose \<^verbatim>\<open>types\<close>
  is the empty array.
\<close>

definition notARepository :: rejection where
  "notARepository = Rejected ''fatal: not a git repository (or any of the parent directories): .git''"

definition featureType :: changeType where
  "featureType =
     \<lparr>ct_emoji = star2, ct_code = '':star2:'', ct_description = ''A new feature'',
      ct_name = ''feature''\<rparr>"

definition symbolConfig :: config where
  "symbolConfig = (defaultConfig [featureType])\<lparr>symbol := True\<rparr>"

definition noTypesFile :: czrcConfig where
  "noTypesFile =
     \<lparr>rc_types = Some [], rc_workflows = None, rc_projectDir = None, rc_symbol = None,
      rc_skipQuestions = None, rc_subjectMaxLength = None, rc_conventional = None,
      rc_scopes = None, rc_questions = None\<rparr>"

definition noTypesConfig :: config where
  "noTypesConfig = spread (defaultConfig [featureType]) (Some noTypesFile)"

text \<open>A prompt engine that fails when the list of types to choose from is empty.\<close>

definition promptNeedsChoices :: "question list \<Rightarrow> rejection + answers" where
  "promptNeedsChoices qs =
     (case callSource (qs ! 0) None of
        Some (Inr (TypeChoices [])) \<Rightarrow> Inl (Rejected ''prompt engine: no choices'')
      | _ \<Rightarrow> Inr featureAnswers)"

text \<open>What \<^verbatim>\<open>git rev-parse --abbrev-ref HEAD\<close> prints on the branch \<^verbatim>\<open>main\<close>.\<close>

definition mainOutput :: string where
  "mainOutput = ''main'' @ [newline]"

section \<open>Answer formatter: properties\<close>

lemma truthy_simps [simp]:
  "truthy None = False"
  "truthy (Some s) = (s \<noteq> [])"
  by (simp_all add: truthy_def)

lemma present_truthy: "present v = truthy v"
  by (cases v) (simp_all add: present_def)

lemma formatScope_simps:
  "formatScope None = []"
  "formatScope (Some []) = []"
  "s \<noteq> [] \<Longrightarrow> formatScope (Some s) = ''('' @ s @ '')''"
  by (simp_all add: formatScope_def)

lemma smartText_smartTokens:
  "filter_truthy
     [if truthy (a_workflow a) \<and> a_workflow a \<noteq> Some ''[NONE]''
        then Some (''#'' @ the (a_workflow a)) else None,
      if truthy (a_time a) then Some (''#time '' @ the (a_time a)) else None,
      if truthy (a_comment a) then Some (''#comment '' @ the (a_comment a)) else None]
   = smartTokens a"
  by (simp add: filter_truthy_def smartTokens_def present_truthy)

lemmas example_defs =
  featureAnswers_def otherAnswers_def bareAnswers_def plainConfig_def
  conventionalConfig_def defaultConfig_def star2_def newline_def

text \<open>
  C6, as amended. \<^verbatim>\<open>formatHead\<close> returns
  \<^verbatim>\<open>{type.name}{formatScope(scope)}: {type.emoji} {subject}\<close> when
  \<^verbatim>\<open>config.conventional\<close> is true, and otherwise \<^verbatim>\<open>{type.emoji} {formatScope(scope)}\<close>,
  two spaces, \<^verbatim>\<open>{subject}\<close>. For the type \<^verbatim>\<open>feature\<close> with the glyph U+1F31F, scope
  \<^verbatim>\<open>api\<close> and subject \<^verbatim>\<open>add x\<close> these are \<^verbatim>\<open>feature(api): G add x\<close> and
  \<^verbatim>\<open>G (api)  add x\<close> (\<^verbatim>\<open>G\<close> the glyph).
\<close>

theorem formatHead_shape:
  "formatHead a cfg =
     (if conventional cfg
      then tv_name (a_type a) @ formatScope (a_scope a) @ '': '' @ tv_emoji (a_type a)
             @ '' '' @ a_subject a
      else tv_emoji (a_type a) @ '' '' @ formatScope (a_scope a) @ ''  '' @ a_subject a)
   \<and> formatHead featureAnswers conventionalConfig = ''feature(api): '' @ star2 @ '' add x''
   \<and> formatHead featureAnswers plainConfig = star2 @ '' (api)  add x''"
  by (simp add: formatHead_def formatScope_def example_defs)

text \<open>
  C6 as it is stated fails: with \<^verbatim>\<open>conventional\<close> false the result is not
  \<^verbatim>\<open>{type.emoji} {formatScope(scope)} {subject}\<close> with one space before the subject.
\<close>

theorem formatHead_one_space_counterexample:
  "formatHead featureAnswers plainConfig
     \<noteq> tv_emoji (a_type featureAnswers) @ '' '' @ formatScope (a_scope featureAnswers)
         @ '' '' @ a_subject featureAnswers
   \<and> formatHead featureAnswers plainConfig = star2 @ '' (api)  add x''
   \<and> conventional plainConfig = False"
  by (simp add: formatHead_def formatScope_def example_defs)

text \<open>
  C7. \<^verbatim>\<open>formatBody\<close> returns \<^verbatim>\<open>{body} \n {issues} {smartSuffix}\<close>, the suffix being
  the tokens of the fields that are present and not the sentinel, joined by spaces.
  With workflow \<^verbatim>\<open>[NONE]\<close>, time \<^verbatim>\<open>2h\<close>, comment \<^verbatim>\<open>done\<close>, issues \<^verbatim>\<open>ABC-1\<close> and body
  \<^verbatim>\<open>fix bug\<close> the result has no \<^verbatim>\<open>#[NONE]\<close>, and has \<^verbatim>\<open>#time 2h\<close> and
  \<^verbatim>\<open>#comment done\<close> right after \<^verbatim>\<open>ABC-1\<close>.
\<close>

theorem formatBody_shape:
  "formatBody a cfg =
     a_body a @ '' '' @ [newline] @ '' '' @ a_issues a @ '' '' @ smartSuffix a
   \<and> formatBody featureAnswers plainConfig =
       ''fix bug '' @ [newline] @ '' ABC-1 #time 2h #comment done''
   \<and> \<not> sublist ''#[NONE]'' (formatBody featureAnswers plainConfig)
   \<and> sublist ''#time 2h'' (formatBody featureAnswers plainConfig)
   \<and> sublist ''#comment done'' (formatBody featureAnswers plainConfig)
   \<and> sublist ''ABC-1 #time 2h #comment done'' (formatBody featureAnswers plainConfig)"
proof -
  have shape: "formatBody b c =
      a_body b @ '' '' @ [newline] @ '' '' @ a_issues b @ '' '' @ smartSuffix b" for b c
    unfolding formatBody_def Let_def smartText_smartTokens
    by (simp add: formatLineItem_def smartSuffix_def)
  have ex: "formatBody featureAnswers plainConfig =
      ''fix bug '' @ [newline] @ '' ABC-1 #time 2h #comment done''"
    by (simp add: shape smartSuffix_def smartTokens_def present_def featureAnswers_def)
  have none: "\<not> sublist ''#[NONE]'' (''fix bug '' @ [newline] @ '' ABC-1 #time 2h #comment done'')"
    by (simp add: newline_def sublist_Cons_right)
  have t: "sublist ''#time 2h'' (''fix bug '' @ [newline] @ '' ABC-1 #time 2h #comment done'')"
    by (simp add: newline_def sublist_Cons_right)
  have c: "sublist ''#comment done'' (''fix bug '' @ [newline] @ '' ABC-1 #time 2h #comment done'')"
    by (simp add: newline_def sublist_Cons_right)
  have i: "sublist ''ABC-1 #time 2h #comment done''
      (''fix bug '' @ [newline] @ '' ABC-1 #time 2h #comment done'')"
    by (simp add: newline_def sublist_Cons_right)
  show ?thesis
    using shape [of a cfg] none t c i unfolding ex by blast
qed

text \<open>
  C9. Two answer records with the same type, scope and subject have the same head
  line under every configuration, whatever their other fields are.
\<close>

theorem formatHead_ignores_other_fields:
  "a_type a = a_type b \<Longrightarrow> a_scope a = a_scope b \<Longrightarrow> a_subject a = a_subject b
     \<Longrightarrow> formatHead a cfg = formatHead b cfg"
  by (simp add: formatHead_def)

theorem formatHead_ignores_other_fields_witness:
  "a_type featureAnswers = a_type otherAnswers
   \<and> a_scope featureAnswers = a_scope otherAnswers
   \<and> a_subject featureAnswers = a_subject otherAnswers
   \<and> a_issues featureAnswers \<noteq> a_issues otherAnswers
   \<and> a_workflow featureAnswers \<noteq> a_workflow otherAnswers
   \<and> a_time featureAnswers \<noteq> a_time otherAnswers
   \<and> a_comment featureAnswers \<noteq> a_comment otherAnswers
   \<and> formatHead featureAnswers conventionalConfig = formatHead otherAnswers conventionalConfig"
proof -
  have eqs: "a_type featureAnswers = a_type otherAnswers"
    "a_scope featureAnswers = a_scope otherAnswers"
    "a_subject featureAnswers = a_subject otherAnswers"
    by (simp_all add: featureAnswers_def otherAnswers_def)
  have diff: "a_issues featureAnswers \<noteq> a_issues otherAnswers"
    "a_workflow featureAnswers \<noteq> a_workflow otherAnswers"
    "a_time featureAnswers \<noteq> a_time otherAnswers"
    "a_comment featureAnswers \<noteq> a_comment otherAnswers"
    by (simp_all add: featureAnswers_def otherAnswers_def)
  from formatHead_ignores_other_fields [OF eqs, of conventionalConfig] eqs diff
  show ?thesis by blast
qed

text \<open>
  C10. When time and comment are absent (or empty) and the workflow is the sentinel
  \<^verbatim>\<open>[NONE]\<close>, \<^verbatim>\<open>formatBody\<close> returns the body, then a space, a newline and a space,
  then the issues and one trailing space.
\<close>

theorem formatBody_empty_suffix:
  "\<not> truthy (a_time a) \<Longrightarrow> \<not> truthy (a_comment a) \<Longrightarrow> a_workflow a = Some ''[NONE]''
     \<Longrightarrow> formatBody a cfg = a_body a @ '' '' @ [newline] @ '' '' @ a_issues a @ '' ''"
  by (simp add: formatBody_def formatLineItem_def filter_truthy_def)

theorem formatBody_empty_suffix_witness:
  "a_time bareAnswers = None \<and> a_comment bareAnswers = None
   \<and> a_workflow bareAnswers = Some ''[NONE]''
   \<and> formatBody bareAnswers plainConfig = ''fix bug '' @ [newline] @ '' ABC-1 ''
   \<and> length ('' '' @ [newline] @ '' '') = 3"
proof -
  have h: "\<not> truthy (a_time bareAnswers)" "\<not> truthy (a_comment bareAnswers)"
    "a_workflow bareAnswers = Some ''[NONE]''"
    by (simp_all add: bareAnswers_def)
  from formatBody_empty_suffix [OF h, of plainConfig]
  show ?thesis by (simp add: bareAnswers_def)
qed

section \<open>Regular expressions: evaluation and positions\<close>

text \<open>
  The equations of \<open>matchR\<close> for \<open>Plus\<close> and of \<open>matchAllFrom\<close> rewrite their own
  right-hand sides; they are used only at an input that is \<open>[]\<close> or \<open>c # s\<close>.
\<close>

lemmas matchR_Plus = matchR.simps(5)

declare matchR.simps(5) [simp del]

declare matchAllFrom.simps [simp del]

lemma matchR_Plus_Nil [simp]: "matchR (Plus a) [] = []"
  by (subst matchR_Plus) simp

lemma matchR_Plus_Cons [simp]:
  "matchR (Plus a) (c # s) =
     concat (map (\<lambda>t. matchR (Plus a) t @ [t])
       (filter (\<lambda>t. length t < Suc (length s)) (matchR a (c # s))))"
  by (subst matchR_Plus) simp

lemma matchAllFrom_Nil:
  "matchAllFrom r i [] = (case matchR r [] of [] \<Rightarrow> [] | t # ts \<Rightarrow> [(i, [])])"
  by (subst matchAllFrom.simps) (simp split: list.splits)

lemma matchAllFrom_Cons:
  "matchAllFrom r i (c # s) =
     (case matchR r (c # s) of
        [] \<Rightarrow> matchAllFrom r (Suc i) s
      | t # ts \<Rightarrow>
          (if length t < Suc (length s)
           then (i, take (Suc (length s) - length t) (c # s))
                  # matchAllFrom r (i + (Suc (length s) - length t)) t
           else (i, []) # matchAllFrom r (Suc i) s))"
  by (subst matchAllFrom.simps) (simp split: list.splits)

lemmas regex_eval =
  jiraMatcher_def between_def range_A_Z_def range_a_z_def range_0_9_def
  matchAllFrom_Nil matchAllFrom_Cons eval_nat_numeral

text \<open>Whatever a match leaves is a suffix of the input.\<close>

lemma matchR_suffix: "t \<in> set (matchR r s) \<Longrightarrow> suffix t s"
proof (induction r s arbitrary: t rule: matchR.induct)
  case (1 s)
  then show ?case by simp
next
  case (2 cs s)
  then show ?case by (auto split: list.splits if_splits simp: suffix_Cons)
next
  case (3 a b s)
  from "3.prems" obtain u where u: "u \<in> set (matchR a s)" and t: "t \<in> set (matchR b u)"
    by auto
  from "3.IH"(1) [OF u] "3.IH"(2) [OF u t] show ?case
    by (rule suffix_order.trans [rotated])
next
  case (4 a s)
  then show ?case by auto
next
  case (5 a s)
  from "5.prems" obtain u where u: "u \<in> set (matchR a s)" and len: "length u < length s"
    and t: "t \<in> set (matchR (Plus a) u) \<or> t = u"
    by (subst (asm) matchR_Plus) auto
  have su: "suffix u s" using "5.IH"(1) [OF u] .
  from t show ?case
  proof
    assume "t \<in> set (matchR (Plus a) u)"
    then have "suffix t u" using "5.IH"(2) u len by simp
    then show ?thesis using su by (rule suffix_order.trans)
  next
    assume "t = u"
    then show ?thesis using su by simp
  qed
next
  case (6 a s)
  then show ?case by (auto split: if_splits)
next
  case (7 s)
  then show ?case by (auto split: if_splits)
qed

text \<open>
  The matches of a scan start at or after the index where the scan starts, at
  increasing indices, and each one is the text of the input at its index.
\<close>

lemma matchAllFrom_from: "(k, m) \<in> set (matchAllFrom r i s) \<Longrightarrow> i \<le> k"
proof (induction r i s arbitrary: k m rule: matchAllFrom.induct)
  case (1 r i s)
  show ?case
  proof (cases "matchR r s")
    case Nil
    with "1.prems" "1.IH"(1) show ?thesis
      by (subst (asm) matchAllFrom.simps) (fastforce split: list.splits)
  next
    case (Cons t ts)
    show ?thesis
    proof (cases "length t < length s")
      case True
      with Cons "1.prems" "1.IH"(2) show ?thesis
        by (subst (asm) matchAllFrom.simps) fastforce
    next
      case False
      with Cons "1.prems" "1.IH"(3) show ?thesis
        by (subst (asm) matchAllFrom.simps) (fastforce split: list.splits)
    qed
  qed
qed

lemma matchAllFrom_increasing: "sorted_wrt (<) (map fst (matchAllFrom r i s))"
proof (induction r i s rule: matchAllFrom.induct)
  case (1 r i s)
  show ?case
  proof (cases "matchR r s")
    case Nil
    with "1.IH"(1) show ?thesis
      by (subst matchAllFrom.simps) (auto split: list.splits)
  next
    case (Cons t ts)
    show ?thesis
    proof (cases "length t < length s")
      case True
      with Cons "1.IH"(2) show ?thesis
        by (subst matchAllFrom.simps) (fastforce dest: matchAllFrom_from)
    next
      case False
      with Cons "1.IH"(3) show ?thesis
        by (subst matchAllFrom.simps) (fastforce split: list.splits dest: matchAllFrom_from)
    qed
  qed
qed

lemma matchAllFrom_text:
  "(k, m) \<in> set (matchAllFrom r i s) \<Longrightarrow> take (length m) (drop (k - i) s) = m"
proof (induction r i s arbitrary: k m rule: matchAllFrom.induct)
  case (1 r i s)
  show ?case
  proof (cases "matchR r s")
    case Nil
    show ?thesis
    proof (cases s)
      case Nil
      with \<open>matchR r s = []\<close> "1.prems" show ?thesis
        by (subst (asm) matchAllFrom.simps) simp
    next
      case (Cons c s')
      with \<open>matchR r s = []\<close> "1.prems" have mem: "(k, m) \<in> set (matchAllFrom r (Suc i) s')"
        by (subst (asm) matchAllFrom.simps) simp
      from matchAllFrom_from [OF mem] have "Suc i \<le> k" .
      then have "k - i = Suc (k - Suc i)" by simp
      with "1.IH"(1) [OF \<open>matchR r s = []\<close> Cons mem] Cons show ?thesis by simp
    qed
  next
    case (Cons t ts)
    then have "t \<in> set (matchR r s)" by simp
    then have "suffix t s" by (rule matchR_suffix)
    then obtain p where s: "s = p @ t" by (auto simp: suffix_def)
    show ?thesis
    proof (cases "length t < length s")
      case True
      with Cons "1.prems" have
        "(k, m) = (i, take (length s - length t) s)
         \<or> (k, m) \<in> set (matchAllFrom r (i + (length s - length t)) t)"
        by (subst (asm) matchAllFrom.simps) simp
      then show ?thesis
      proof
        assume "(k, m) = (i, take (length s - length t) s)"
        then show ?thesis by simp
      next
        assume mem: "(k, m) \<in> set (matchAllFrom r (i + (length s - length t)) t)"
        from matchAllFrom_from [OF mem] have le: "i + length p \<le> k" using s by simp
        from "1.IH"(2) [OF Cons True mem]
        have "take (length m) (drop (k - (i + length p)) t) = m" using s by simp
        moreover have "drop (k - i) s = drop (k - (i + length p)) t"
          using le s by simp
        ultimately show ?thesis by simp
      qed
    next
      case False
      show ?thesis
      proof (cases s)
        case Nil
        with Cons False "1.prems" show ?thesis
          by (subst (asm) matchAllFrom.simps) simp
      next
        case (Cons c s')
        with \<open>matchR r s = t # ts\<close> False "1.prems" have
          "(k, m) = (i, []) \<or> (k, m) \<in> set (matchAllFrom r (Suc i) s')"
          by (subst (asm) matchAllFrom.simps) simp
        then show ?thesis
        proof
          assume "(k, m) = (i, [])"
          then show ?thesis by simp
        next
          assume mem: "(k, m) \<in> set (matchAllFrom r (Suc i) s')"
          from matchAllFrom_from [OF mem] have "Suc i \<le> k" .
          then have "k - i = Suc (k - Suc i)" by simp
          with "1.IH"(3) [OF \<open>matchR r s = t # ts\<close> False Cons mem] Cons
          show ?thesis by simp
        qed
      qed
    qed
  qed
qed

section \<open>Version-control context resolver: properties\<close>

lemma getGitBranch_Inr:
  "getGitBranch (Inr s) =
     Inr (case matchAllFrom jiraMatcher 0 s of
            [] \<Rightarrow> ''no jira ticket''
          | m # ms \<Rightarrow> snd (last (m # ms)))"
proof (cases "matchAllFrom jiraMatcher 0 s")
  case Nil
  then show ?thesis by (simp add: getGitBranch_def match_g_def)
next
  case (Cons m ms)
  have "map snd (m # ms) ! (length (map snd (m # ms)) - 1) = last (map snd (m # ms))"
    by (rule last_conv_nth [symmetric]) simp
  also have "\<dots> = snd (last (m # ms))"
    by (rule last_map) simp
  finally show ?thesis using Cons by (simp add: getGitBranch_def match_g_def)
qed

lemma scan_feature:
  "matchAllFrom jiraMatcher 0 ''feature/ABC-123-fix'' = [(8, ''ABC-123'')]"
  by (simp add: regex_eval)

lemma scan_feature_stdout:
  "matchAllFrom jiraMatcher 0 (''feature/ABC-123-fix'' @ [newline]) = [(8, ''ABC-123'')]"
  by (simp add: regex_eval newline_def)

lemma scan_main: "matchAllFrom jiraMatcher 0 ''main'' = []"
  by (simp add: regex_eval)

lemma scan_main_stdout: "matchAllFrom jiraMatcher 0 (''main'' @ [newline]) = []"
  by (simp add: regex_eval newline_def)

lemma scan_two_keys:
  "matchAllFrom jiraMatcher 0 ''ABC-1-and-DEF-22'' = [(0, ''ABC-1''), (10, ''DEF-22'')]"
  by (simp add: regex_eval)

lemma scan_two_keys_stdout:
  "matchAllFrom jiraMatcher 0 (''ABC-1-and-DEF-22'' @ [newline])
     = [(0, ''ABC-1''), (10, ''DEF-22'')]"
  by (simp add: regex_eval newline_def)

text \<open>
  C5. On the branch \<^verbatim>\<open>feature/ABC-123-fix\<close> the resolver gives \<^verbatim>\<open>ABC-123\<close>, on \<^verbatim>\<open>main\<close>
  the sentinel \<^verbatim>\<open>no jira ticket\<close>, on \<^verbatim>\<open>ABC-1-and-DEF-22\<close> the last key \<^verbatim>\<open>DEF-22\<close>,
  both for the bare name and for the line that the child process prints. In general
  the result is the sentinel when the scan finds no match and the last match of the
  scan otherwise; the matches of the scan stand at increasing indices of the text, so
  the last one is the rightmost, and each is the text found at its index.
\<close>

theorem getGitBranch_last_match:
  "getGitBranch (Inr ''feature/ABC-123-fix'') = Inr ''ABC-123''
   \<and> getGitBranch (Inr ''main'') = Inr ''no jira ticket''
   \<and> getGitBranch (Inr ''ABC-1-and-DEF-22'') = Inr ''DEF-22''
   \<and> getGitBranch (Inr (''feature/ABC-123-fix'' @ [newline])) = Inr ''ABC-123''
   \<and> getGitBranch (Inr (''main'' @ [newline])) = Inr ''no jira ticket''
   \<and> getGitBranch (Inr (''ABC-1-and-DEF-22'' @ [newline])) = Inr ''DEF-22''
   \<and> matchAllFrom jiraMatcher 0 ''ABC-1-and-DEF-22'' = [(0, ''ABC-1''), (10, ''DEF-22'')]
   \<and> getGitBranch (Inr branch) =
       Inr (case matchAllFrom jiraMatcher 0 branch of
              [] \<Rightarrow> ''no jira ticket''
            | m # ms \<Rightarrow> snd (last (m # ms)))
   \<and> sorted_wrt (<) (map fst (matchAllFrom jiraMatcher 0 branch))
   \<and> list_all (\<lambda>(k, m). take (length m) (drop k branch) = m)
        (matchAllFrom jiraMatcher 0 branch)"
proof -
  have texts: "list_all (\<lambda>(k, m). take (length m) (drop k branch) = m)
      (matchAllFrom jiraMatcher 0 branch)"
    unfolding list_all_iff using matchAllFrom_text [of _ _ jiraMatcher 0 branch] by auto
  show ?thesis
    unfolding getGitBranch_Inr scan_feature scan_feature_stdout scan_main scan_main_stdout
      scan_two_keys scan_two_keys_stdout
    using texts matchAllFrom_increasing [of jiraMatcher 0 branch] by simp
qed

section \<open>Failure of the branch lookup\<close>

text \<open>
  A match of \<^verbatim>\<open>jiraMatcher\<close> starts with a capital letter, so no match is the text
  \<^verbatim>\<open>no jira ticket\<close>: the resolver gives the sentinel exactly when the lookup was
  fulfilled and the scan of the branch name found no issue key.
\<close>

lemma between_one: "between 1 1 r = Cat r Eps"
  by (simp add: between_def)

lemma guarded_class_match:
  "t \<in> set (matchR (Cat (NotAhead l) (Cat (Cat (Chars cs) Eps) rest)) s) \<Longrightarrow>
     \<exists>c s'. s = c # s' \<and> c \<in> set cs \<and> suffix t s'"
  by (auto split: if_splits list.splits dest: matchR_suffix)

lemma jiraMatcher_match:
  "t \<in> set (matchR jiraMatcher s) \<Longrightarrow>
     \<exists>c s'. s = c # s' \<and> c \<in> set range_A_Z \<and> suffix t s'"
  unfolding jiraMatcher_def between_one by (rule guarded_class_match)

lemma jiraMatcher_scan_capital:
  "(k, m) \<in> set (matchAllFrom jiraMatcher i s) \<Longrightarrow> \<exists>c m'. m = c # m' \<and> c \<in> set range_A_Z"
proof (induction jiraMatcher i s arbitrary: k m rule: matchAllFrom.induct)
  case (1 i s)
  show ?case
  proof (cases "matchR jiraMatcher s")
    case Nil
    with "1.prems" "1.hyps"(1) show ?thesis
      by (subst (asm) matchAllFrom.simps) (fastforce split: list.splits)
  next
    case (Cons t ts)
    then have "t \<in> set (matchR jiraMatcher s)" by simp
    from jiraMatcher_match [OF this] obtain c s' where s: "s = c # s'"
      and c: "c \<in> set range_A_Z" and suf: "suffix t s'" by blast
    from suf have le: "length t \<le> length s'" by (rule suffix_length_le)
    then have shorter: "length t < length s" using s by simp
    from Cons shorter "1.prems" have
      "(k, m) = (i, take (length s - length t) s)
       \<or> (k, m) \<in> set (matchAllFrom jiraMatcher (i + (length s - length t)) t)"
      by (subst (asm) matchAllFrom.simps) simp
    then show ?thesis
    proof
      assume "(k, m) = (i, take (length s - length t) s)"
      moreover have "length s - length t = Suc (length s' - length t)"
        using le s by simp
      ultimately show ?thesis using s c by simp
    next
      assume "(k, m) \<in> set (matchAllFrom jiraMatcher (i + (length s - length t)) t)"
      with "1.hyps"(2) [OF Cons shorter] show ?thesis by blast
    qed
  qed
qed

lemma sentinel_no_match: "(k, ''no jira ticket'') \<notin> set (matchAllFrom jiraMatcher i s)"
proof
  assume "(k, ''no jira ticket'') \<in> set (matchAllFrom jiraMatcher i s)"
  from jiraMatcher_scan_capital [OF this] show False
    by (simp add: range_A_Z_def)
qed

lemma getGitBranch_sentinel:
  "(getGitBranch x = Inr ''no jira ticket'')
     = (\<exists>s. x = Inr s \<and> matchAllFrom jiraMatcher 0 s = [])"
proof (cases x)
  case (Inl e)
  then show ?thesis by (simp add: getGitBranch_def)
next
  case (Inr s)
  show ?thesis
  proof (cases "matchAllFrom jiraMatcher 0 s")
    case Nil
    with Inr show ?thesis by (simp add: getGitBranch_Inr)
  next
    case (Cons m ms)
    have "last (m # ms) \<in> set (matchAllFrom jiraMatcher 0 s)"
      unfolding Cons by (rule last_in_set) simp
    then have "(fst (last (m # ms)), snd (last (m # ms))) \<in> set (matchAllFrom jiraMatcher 0 s)"
      by simp
    then have "snd (last (m # ms)) \<noteq> ''no jira ticket''"
      using sentinel_no_match by metis
    with Inr Cons show ?thesis by (simp add: getGitBranch_Inr)
  qed
qed

text \<open>
  C2, as amended. When the branch lookup is rejected, nothing recovers from it:
  \<^verbatim>\<open>getGitBranch\<close>, \<^verbatim>\<open>loadConfig\<close> and the chain of the prompter are rejected with the
  same reason, whatever the configuration file holds and whatever the prompt engine
  would answer. No sentinel is substituted: the result of the resolver is
  \<^verbatim>\<open>no jira ticket\<close> exactly when the lookup was fulfilled with a branch name in
  which the scan finds no issue key.
\<close>

theorem lookup_failure_propagates:
  "getGitBranch (Inl e) = Inl e
   \<and> loadConfig libTypes (Inl e) czrc = Inl e
   \<and> prompter pad fuseE fuseW libTypes (Inl e) czrc prompt finish = Inl e
   \<and> (getGitBranch x = Inr ''no jira ticket'')
       = (\<exists>s. x = Inr s \<and> matchAllFrom jiraMatcher 0 s = [])"
  by (simp add: getGitBranch_sentinel)
    (simp add: getGitBranch_def loadConfig_def prompter_def)

theorem lookup_failure_propagates_witness:
  "getGitBranch (Inl notARepository) = Inl notARepository
   \<and> getGitBranch (Inl notARepository) \<noteq> Inr ''no jira ticket''
   \<and> matchAllFrom jiraMatcher 0 ''main'' = []
   \<and> getGitBranch (Inr ''main'') = Inr ''no jira ticket''
   \<and> matchAllFrom jiraMatcher 0 ''feature/ABC-123-fix'' \<noteq> []
   \<and> getGitBranch (Inr ''feature/ABC-123-fix'') \<noteq> Inr ''no jira ticket''"
proof -
  note t = lookup_failure_propagates [of notARepository "[]" "Inr None" padRight
      searchNothing searchNothing promptAnswers finishWith]
  have rejected: "getGitBranch (Inl notARepository) = Inl notARepository"
    "getGitBranch (Inl notARepository) \<noteq> Inr ''no jira ticket''"
    using t [of "Inl notARepository"] by simp_all
  have main: "getGitBranch (Inr ''main'') = Inr ''no jira ticket''"
    using t [of "Inr ''main''"] scan_main by simp
  have feature: "getGitBranch (Inr ''feature/ABC-123-fix'') \<noteq> Inr ''no jira ticket''"
    using t [of "Inr ''feature/ABC-123-fix''"] scan_feature by simp
  show ?thesis
    using rejected main feature scan_main scan_feature by simp
qed

text \<open>
  C2 as it is stated fails: outside a repository the resolver does not give
  \<^verbatim>\<open>no jira ticket\<close>, the configuration is not loaded and the session ends with the
  rejection of the child process, although the prompt engine would have answered.
\<close>

theorem lookup_failure_counterexample:
  "getGitBranch (Inl notARepository) \<noteq> Inr ''no jira ticket''
   \<and> getGitBranch (Inl notARepository) = Inl notARepository
   \<and> loadConfig [featureType] (Inl notARepository) (Inr None) = Inl notARepository
   \<and> prompter padRight searchNothing searchNothing [featureType] (Inl notARepository)
        (Inr None) promptAnswers finishWith = Inl notARepository
   \<and> prompter padRight searchNothing searchNothing [featureType] (Inr ''main'')
        (Inr None) promptAnswers finishWith = Inr (a_subject featureAnswers)"
proof -
  have rejected: "getGitBranch (Inl notARepository) = Inl notARepository"
    by (simp add: getGitBranch_def)
  have resolved: "getGitBranch (Inr ''main'') = Inr ''no jira ticket''"
    by (simp add: getGitBranch_Inr scan_main)
  show ?thesis
    by (simp add: rejected resolved loadConfig_def prompter_def promptAnswers_def
        finishWith_def)
qed

section \<open>Catalog builder: properties\<close>

text \<open>
  C4, as amended. The choice list has one entry for each type, in the order of the
  types; \<^verbatim>\<open>value.emoji\<close> is the glyph followed by one space when \<^verbatim>\<open>symbol\<close> is true
  and the \<^verbatim>\<open>code\<close> token when it is false, and \<^verbatim>\<open>value.name\<close> is the \<^verbatim>\<open>name\<close> of the
  type.
\<close>

theorem getEmojiChoices_value:
  "length (getEmojiChoices pad cfg) = length (types cfg)
   \<and> map (\<lambda>c. tv_emoji (ce_value c)) (getEmojiChoices pad cfg)
       = map (\<lambda>t. if symbol cfg then ct_emoji t @ '' '' else ct_code t) (types cfg)
   \<and> map (\<lambda>c. tv_name (ce_value c)) (getEmojiChoices pad cfg) = map ct_name (types cfg)"
  by (simp add: getEmojiChoices_def Let_def comp_def)

text \<open>
  C4 as it is stated fails: with \<^verbatim>\<open>symbol\<close> true the value of the \<^verbatim>\<open>feature\<close> type is
  not its glyph but the glyph and a space.
\<close>

theorem getEmojiChoices_glyph_counterexample:
  "symbol symbolConfig = True
   \<and> types symbolConfig = [featureType]
   \<and> tv_emoji (ce_value (getEmojiChoices padRight symbolConfig ! 0)) \<noteq> ct_emoji featureType
   \<and> tv_emoji (ce_value (getEmojiChoices padRight symbolConfig ! 0)) = star2 @ '' ''"
  by (simp add: getEmojiChoices_def Let_def symbolConfig_def defaultConfig_def
      featureType_def)

section \<open>Question pipeline builder: properties\<close>

lemma createQuestions_names:
  "map q_name (createQuestions pad fuseE fuseW t cfg) =
     [''type'', ''scope'', ''issues'', ''time'', ''comment'', ''workflow'', ''subject'',
      ''body'']"
  by (simp add: createQuestions_def plainQuestion_def Let_def)

lemma typeQuestion_source:
  "callSource (createQuestions pad fuseE fuseW t cfg ! 0) query =
     Some (Inr (TypeChoices
       (if truthy query then fuseE (getEmojiChoices pad cfg) (the query)
        else getEmojiChoices pad cfg)))"
  by (simp add: createQuestions_def plainQuestion_def Let_def callSource_def)

lemma workflowQuestion_source:
  "callSource (createQuestions pad fuseE fuseW t cfg ! 5) query =
     Some (Inr (WorkflowChoices
       (if truthy query
        then fuseW (\<lparr>wf_name = ''[NONE]'', wf_value = ''[NONE]''\<rparr> # workflows cfg) (the query)
        else \<lparr>wf_name = ''[NONE]'', wf_value = ''[NONE]''\<rparr> # workflows cfg)))"
  by (simp add: createQuestions_def plainQuestion_def Let_def callSource_def)

lemma issuesQuestion_validate:
  "callValidate (createQuestions pad fuseE fuseW t cfg ! 2) input =
     Some (if input = [] then Invalid ''Must specify issue IDs'' else Valid)"
  by (simp add: createQuestions_def plainQuestion_def Let_def callValidate_def)

text \<open>
  C1, as amended. The third question is \<^verbatim>\<open>issues\<close>, and its \<^verbatim>\<open>validate\<close> callback
  returns the message \<^verbatim>\<open>Must specify issue IDs\<close> for the empty string and \<^verbatim>\<open>true\<close> for
  every other string; nothing is trimmed.
\<close>

theorem issues_validate_empty_only:
  "q_name (createQuestions pad fuseE fuseW t cfg ! 2) = ''issues''
   \<and> callValidate (createQuestions pad fuseE fuseW t cfg ! 2) input =
       Some (if input = [] then Invalid ''Must specify issue IDs'' else Valid)"
  by (simp add: issuesQuestion_validate)
    (simp add: createQuestions_def plainQuestion_def Let_def)

text \<open>
  C1 as it is stated fails: an input of three spaces, and one of a tab, is accepted.
\<close>

theorem issues_validate_whitespace_counterexample:
  "callValidate
     (createQuestions padRight searchNothing searchNothing (Some ''no jira ticket'')
        plainConfig ! 2) ''   '' = Some Valid
   \<and> callValidate
     (createQuestions padRight searchNothing searchNothing (Some ''no jira ticket'')
        plainConfig ! 2) [CHR 0x09] = Some Valid"
  by (simp add: issuesQuestion_validate)

text \<open>
  C8. With an empty query (\<^verbatim>\<open>undefined\<close> or the empty string) the \<^verbatim>\<open>source\<close> callback
  of the \<^verbatim>\<open>type\<close> question resolves to the whole choice list and that of the
  \<^verbatim>\<open>workflow\<close> question to the whole workflow list, which starts with the sentinel
  \<^verbatim>\<open>[NONE]\<close>; the search of \<^verbatim>\<open>fuse.js\<close> is not consulted, and the lists are in the
  order of the configuration.
\<close>

theorem source_empty_query_unfiltered:
  "q_name (createQuestions pad fuseE fuseW t cfg ! 0) = ''type''
   \<and> callSource (createQuestions pad fuseE fuseW t cfg ! 0) None
       = Some (Inr (TypeChoices (getEmojiChoices pad cfg)))
   \<and> callSource (createQuestions pad fuseE fuseW t cfg ! 0) (Some [])
       = Some (Inr (TypeChoices (getEmojiChoices pad cfg)))
   \<and> map ce_code (getEmojiChoices pad cfg) = map ct_code (types cfg)
   \<and> q_name (createQuestions pad fuseE fuseW t cfg ! 5) = ''workflow''
   \<and> callSource (createQuestions pad fuseE fuseW t cfg ! 5) None
       = Some (Inr (WorkflowChoices
           (\<lparr>wf_name = ''[NONE]'', wf_value = ''[NONE]''\<rparr> # workflows cfg)))
   \<and> callSource (createQuestions pad fuseE fuseW t cfg ! 5) (Some [])
       = Some (Inr (WorkflowChoices
           (\<lparr>wf_name = ''[NONE]'', wf_value = ''[NONE]''\<rparr> # workflows cfg)))"
proof -
  have names: "q_name (createQuestions pad fuseE fuseW t cfg ! 0) = ''type''"
    "q_name (createQuestions pad fuseE fuseW t cfg ! 5) = ''workflow''"
    by (simp_all add: createQuestions_def plainQuestion_def Let_def)
  have codes: "map ce_code (getEmojiChoices pad cfg) = map ct_code (types cfg)"
    by (simp add: getEmojiChoices_def Let_def comp_def)
  show ?thesis
    by (simp add: names codes typeQuestion_source workflowQuestion_source)
qed

section \<open>A configuration with no change-type\<close>

lemma prompter_fulfilled:
  "loadConfig libTypes branch czrc = Inr (ticket, cfg) \<Longrightarrow>
     prompter pad fuseE fuseW libTypes branch czrc prompt finish =
       (case prompt (createQuestions pad fuseE fuseW (Some ticket) cfg) of
          Inl e \<Rightarrow> Inl e
        | Inr a \<Rightarrow> finish a)"
  by (simp add: prompter_def)

lemma getEmojiChoices_no_types: "types cfg = [] \<Longrightarrow> getEmojiChoices pad cfg = []"
  by (simp add: getEmojiChoices_def)

lemma loadConfig_noTypesFile:
  "loadConfig [featureType] (Inr mainOutput) (Inr (Some noTypesFile))
     = Inr (''no jira ticket'', noTypesConfig)"
proof -
  have "matchAllFrom jiraMatcher 0 mainOutput = []"
    unfolding mainOutput_def by (rule scan_main_stdout)
  then show ?thesis
    by (simp add: loadConfig_def getGitBranch_Inr noTypesConfig_def)
qed

lemma types_noTypesConfig: "types noTypesConfig = []"
  by (simp add: noTypesConfig_def spread_def noTypesFile_def)

text \<open>
  C3, as amended. When the configuration that \<^verbatim>\<open>loadConfig\<close> resolves has no
  change-type, no error is raised: the choice list is empty, the eight questions are
  built, the \<^verbatim>\<open>source\<close> of the \<^verbatim>\<open>type\<close> question resolves to the empty list for an
  empty query, and the prompter hands the questions to the prompt engine and goes on
  with what it answers.
\<close>

theorem empty_catalog_reaches_prompt:
  "loadConfig libTypes branch czrc = Inr (ticket, cfg) \<Longrightarrow> types cfg = [] \<Longrightarrow>
     getEmojiChoices pad cfg = []
     \<and> map q_name (createQuestions pad fuseE fuseW (Some ticket) cfg) =
         [''type'', ''scope'', ''issues'', ''time'', ''comment'', ''workflow'', ''subject'',
          ''body'']
     \<and> callSource (createQuestions pad fuseE fuseW (Some ticket) cfg ! 0) None
         = Some (Inr (TypeChoices []))
     \<and> prompter pad fuseE fuseW libTypes branch czrc prompt finish =
         (case prompt (createQuestions pad fuseE fuseW (Some ticket) cfg) of
            Inl e \<Rightarrow> Inl e
          | Inr a \<Rightarrow> finish a)"
  by (simp add: prompter_fulfilled getEmojiChoices_no_types createQuestions_names
      typeQuestion_source)

theorem empty_catalog_reaches_prompt_witness:
  "loadConfig [featureType] (Inr mainOutput) (Inr (Some noTypesFile))
     = Inr (''no jira ticket'', noTypesConfig)
   \<and> types noTypesConfig = []
   \<and> getEmojiChoices padRight noTypesConfig = []
   \<and> callSource
       (createQuestions padRight searchNothing searchNothing (Some ''no jira ticket'')
          noTypesConfig ! 0) None = Some (Inr (TypeChoices []))
   \<and> prompter padRight searchNothing searchNothing [featureType]
       (Inr mainOutput) (Inr (Some noTypesFile)) promptAnswers finishWith
       = Inr (a_subject featureAnswers)"
  using empty_catalog_reaches_prompt [OF loadConfig_noTypesFile types_noTypesConfig,
      of padRight searchNothing searchNothing promptAnswers finishWith]
    loadConfig_noTypesFile types_noTypesConfig
  by (simp add: promptAnswers_def finishWith_def)

text \<open>
  C3 as it is stated fails: with a \<^verbatim>\<open>.czrc\<close> whose \<^verbatim>\<open>types\<close> is empty the configuration
  loads, a prompt engine that answers leads to a commit, and one that cannot work
  with an empty choice list is where the failure comes from.
\<close>

theorem empty_catalog_counterexample:
  "loadConfig [featureType] (Inr mainOutput) (Inr (Some noTypesFile))
     = Inr (''no jira ticket'', noTypesConfig)
   \<and> types noTypesConfig = []
   \<and> prompter padRight searchNothing searchNothing [featureType]
       (Inr mainOutput) (Inr (Some noTypesFile)) promptAnswers finishWith
       = Inr ''add x''
   \<and> prompter padRight searchNothing searchNothing [featureType]
       (Inr mainOutput) (Inr (Some noTypesFile)) promptNeedsChoices finishWith
       = Inl (Rejected ''prompt engine: no choices'')"
  by (simp add: prompter_fulfilled [OF loadConfig_noTypesFile] loadConfig_noTypesFile
      types_noTypesConfig promptAnswers_def finishWith_def promptNeedsChoices_def
      typeQuestion_source getEmojiChoices_no_types featureAnswers_def)

end
